theory Spec2Isabelle
  imports Complex_Main "HOL-Library.Multiset"
begin

section \<open>Values: strings, identifiers, time\<close>

text \<open>
  A JavaScript string is a sequence of UTF-16 code units; the database stores the same
  text. Identifiers are UUID texts, timestamps are milliseconds, calendar dates are day
  numbers. Column values are taken to fit their column (a varchar within its length, a
  uuid column holding a UUID): the length and format checks of the database are not part
  of the model, its primary keys and unique constraints are discussed where they matter.
\<close>

type_synonym jsstring = "nat list"
type_synonym uuid = jsstring
type_synonym timestamp = nat
type_synonym pgdate = nat

definition str :: "string \<Rightarrow> jsstring" where
  "str s = map of_char s"

text \<open>JavaScript truthiness of a string: every string but the empty one.\<close>

definition truthy :: "jsstring \<Rightarrow> bool" where
  "truthy s = (s \<noteq> [])"

text \<open>\<open>String.prototype.trim\<close>: strips white space and line terminators at both ends.\<close>

definition isWhiteSpace :: "nat \<Rightarrow> bool" where
  "isWhiteSpace c =
     ((9 \<le> c \<and> c \<le> 13) \<or> c = 32 \<or> c = 160 \<or> c = 5760 \<or> (8192 \<le> c \<and> c \<le> 8202)
      \<or> c = 8232 \<or> c = 8233 \<or> c = 8239 \<or> c = 8287 \<or> c = 12288 \<or> c = 65279)"

definition trim :: "jsstring \<Rightarrow> jsstring" where
  "trim s = rev (dropWhile isWhiteSpace (rev (dropWhile isWhiteSpace s)))"

text \<open>
  What the service takes from its platform and does not define itself: the two Unicode
  string functions of the JavaScript runtime used by \<open>slugify\<close>, the text functions of
  the database used in its queries, and the database's UUID generator (the \<open>k\<close>-th
  identifier it hands out).
\<close>

record platform =
  toLowerCase :: "jsstring \<Rightarrow> jsstring"
  normalizeNFD :: "jsstring \<Rightarrow> jsstring"
  pgLower :: "jsstring \<Rightarrow> jsstring"
  pgILike :: "jsstring \<Rightarrow> jsstring \<Rightarrow> bool"
  uuidGen :: "nat \<Rightarrow> uuid"

text \<open>Number to text: \<open>`${counter}`\<close> (decimal) and \<open>Date.now().toString(36)\<close>.\<close>

definition digitChar :: "nat \<Rightarrow> nat" where
  "digitChar d = (if d < 10 then 48 + d else 87 + d)"

fun toRadix :: "nat \<Rightarrow> nat \<Rightarrow> jsstring" where
  "toRadix b n =
     (if b < 2 \<or> n < b then [digitChar n] else toRadix b (n div b) @ [digitChar (n mod b)])"

declare toRadix.simps [simp del]

definition numberToString :: "nat \<Rightarrow> jsstring" where
  "numberToString n = toRadix 10 n"

section \<open>Hall service: slugs\<close>

definition isAlnum :: "nat \<Rightarrow> bool" where
  "isAlnum c = ((97 \<le> c \<and> c \<le> 122) \<or> (48 \<le> c \<and> c \<le> 57))"

definition isCombiningMark :: "nat \<Rightarrow> bool" where
  "isCombiningMark c = (768 \<le> c \<and> c \<le> 879)"

definition dash :: nat where
  "dash = 45"

text \<open>\<open>.replace(/[^a-z0-9]+/g, "-")\<close>: every maximal run of other characters becomes one dash.
  The flag says whether the previous character belonged to such a run.\<close>

fun collapseRuns :: "bool \<Rightarrow> jsstring \<Rightarrow> jsstring" where
  "collapseRuns inRun [] = []"
| "collapseRuns inRun (c # cs) =
     (if isAlnum c then c # collapseRuns False cs
      else if inRun then collapseRuns True cs
      else dash # collapseRuns True cs)"

text \<open>\<open>.replace(/^-+|-+$/g, "")\<close>\<close>

definition trimDashes :: "jsstring \<Rightarrow> jsstring" where
  "trimDashes s = rev (dropWhile (\<lambda>c. c = dash) (rev (dropWhile (\<lambda>c. c = dash) s)))"

definition slugify :: "platform \<Rightarrow> jsstring \<Rightarrow> jsstring" where
  "slugify pf input =
     trimDashes (collapseRuns False
       (filter (\<lambda>c. \<not> isCombiningMark c) (normalizeNFD pf (toLowerCase pf input))))"

definition generateFallbackBaseSlug :: "timestamp \<Rightarrow> jsstring" where
  "generateFallbackBaseSlug now = str ''hall-'' @ toRadix 36 now"

section \<open>Hall service: data\<close>

datatype HallStatus = DRAFT | ACTIVE | ARCHIVED

datatype HallUserRoleType = OWNER | MANAGER | RECEPTIONIST | ACCOUNTANT

record hall =
  hall_id :: uuid
  hall_gerantId :: "uuid option"
  hall_name :: jsstring
  hall_slug :: jsstring
  hall_address :: "jsstring option"
  hall_city :: "jsstring option"
  hall_capacity :: "int option"
  hall_description :: "jsstring option"
  hall_cancellationPolicy :: "jsstring option"
  hall_isPremium :: bool
  hall_status :: HallStatus
  hall_createdAt :: timestamp
  hall_updatedAt :: timestamp

record hallUserRole =
  hur_id :: uuid
  hur_hall :: uuid
  hur_user :: uuid
  hur_role :: HallUserRoleType
  hur_created_at :: timestamp

section \<open>Pricing, media and host application data\<close>

text \<open>
  Monetary columns are \<open>numeric(12,2)\<close>, exact decimals, modelled as rationals. The data
  transfer objects of the services copy the columns of a row; where a mapper does nothing
  else, the row stands for its transfer object (the conversion of a decimal to a
  JavaScript number at that boundary is floating point and outside the model).
\<close>

record hallProduct =
  hp_id :: uuid
  hp_hallId :: uuid
  hp_name :: jsstring
  hp_category :: "jsstring option"
  hp_description :: "jsstring option"
  hp_isPrimary :: bool
  hp_isActive :: bool
  hp_createdAt :: timestamp
  hp_updatedAt :: timestamp

record hallProductRate =
  hpr_id :: uuid
  hpr_hallProductId :: uuid
  hpr_label :: jsstring
  hpr_currency :: jsstring
  hpr_price :: rat
  hpr_billingUnit :: jsstring
  hpr_minHours :: "int option"
  hpr_maxHours :: "int option"
  hpr_extraUnitPrice :: "rat option"
  hpr_dayOfWeekMask :: "jsstring option"
  hpr_seasonStart :: "pgdate option"
  hpr_seasonEnd :: "pgdate option"
  hpr_isDefault :: bool
  hpr_createdAt :: timestamp
  hpr_updatedAt :: timestamp

record hallAddon =
  ha_id :: uuid
  ha_hallId :: uuid
  ha_name :: jsstring
  ha_description :: "jsstring option"
  ha_pricingModel :: jsstring
  ha_currency :: jsstring
  ha_unitPrice :: rat
  ha_packSize :: "int option"
  ha_redevanceAmount :: "rat option"
  ha_isActive :: bool
  ha_createdAt :: timestamp
  ha_updatedAt :: timestamp

record hallBlockedDate =
  hbd_id :: uuid
  hbd_hallId :: uuid
  hbd_startDate :: pgdate
  hbd_endDate :: "pgdate option"
  hbd_reason :: "jsstring option"
  hbd_createdByUserId :: "uuid option"
  hbd_createdAt :: timestamp

datatype MediaType = IMAGE | VIDEO | DOCUMENT

record media =
  m_id :: uuid
  m_hallId :: uuid
  m_storageProvider :: jsstring
  m_fileUrl :: jsstring
  m_originalFilename :: "jsstring option"
  m_mimeType :: "jsstring option"
  m_sizeBytes :: "jsstring option"
  m_width :: "int option"
  m_height :: "int option"
  m_mediaType :: MediaType
  m_sortOrder :: "int option"
  m_createdAt :: timestamp
  m_updatedAt :: timestamp

record mediaTag =
  mt_id :: uuid
  mt_mediaId :: uuid
  mt_tagTypeId :: uuid
  mt_isPrimary :: bool
  mt_createdAt :: timestamp

record mediaTagType =
  mtt_id :: uuid
  mtt_name :: jsstring
  mtt_description :: "jsstring option"
  mtt_createdAt :: timestamp

datatype HostApplicationStatus = NEW | UNDER_REVIEW | APPROVED | REJECTED

record hostApplication =
  app_id :: uuid
  app_applicantUserId :: "uuid option"
  app_hallName :: jsstring
  app_address :: "jsstring option"
  app_city :: "jsstring option"
  app_capacity :: "int option"
  app_description :: "jsstring option"
  app_additionalDetails :: "jsstring option"
  app_contactName :: jsstring
  app_contactEmail :: jsstring
  app_contactPhone :: "jsstring option"
  app_contactWhatsapp :: "jsstring option"
  app_status :: HostApplicationStatus
  app_adminNotes :: "jsstring option"
  app_reviewedByUserId :: "uuid option"
  app_reviewedAt :: "timestamp option"
  app_createdAt :: timestamp
  app_updatedAt :: timestamp

section \<open>The database\<close>

text \<open>
  Every table is the list of its rows in storage order. \<open>uuidCount\<close> counts the
  identifiers the database has generated so far.
\<close>

record database =
  halls :: "hall list"
  hallUserRoles :: "hallUserRole list"
  hallProducts :: "hallProduct list"
  hallProductRates :: "hallProductRate list"
  hallAddons :: "hallAddon list"
  hallBlockedDates :: "hallBlockedDate list"
  mediaRows :: "media list"
  mediaTags :: "mediaTag list"
  mediaTagTypes :: "mediaTagType list"
  hostApplications :: "hostApplication list"
  uuidCount :: nat

datatype error = NotFoundError string | QueryFailedError string

definition nextUuid :: "platform \<Rightarrow> database \<Rightarrow> uuid \<times> database" where
  "nextUuid pf db = (uuidGen pf (uuidCount db), db\<lparr>uuidCount := Suc (uuidCount db)\<rparr>)"

text \<open>
  \<open>ORDER BY\<close>: a stable insertion sort under the comparison \<open>le\<close> (\<open>le a b\<close>: row
  \<open>a\<close> may stand before row \<open>b\<close>). The database leaves the order of rows with equal
  keys open; the model keeps them in storage order.
\<close>

fun insertBy :: "('a \<Rightarrow> 'a \<Rightarrow> bool) \<Rightarrow> 'a \<Rightarrow> 'a list \<Rightarrow> 'a list" where
  "insertBy le x [] = [x]"
| "insertBy le x (y # ys) = (if le x y then x # y # ys else y # insertBy le x ys)"

definition orderBy :: "('a \<Rightarrow> 'a \<Rightarrow> bool) \<Rightarrow> 'a list \<Rightarrow> 'a list" where
  "orderBy le xs = foldr (insertBy le) xs []"


section \<open>Hall service\<close>

record CreateHallPayload =
  c_name :: jsstring
  c_slug :: "jsstring option"
  c_address :: "jsstring option"
  c_city :: "jsstring option"
  c_capacity :: "int option"
  c_description :: "jsstring option"
  c_cancellationPolicy :: "jsstring option"
  c_isPremium :: "bool option"
  c_status :: "HallStatus option"
  c_gerantId :: "uuid option"

text \<open>In the update payload an absent field is \<open>None\<close>; \<open>gerantId\<close> may also be
  present and \<open>null\<close>, which is \<open>Some None\<close>.\<close>

record UpdateHallPayload =
  u_name :: "jsstring option"
  u_slug :: "jsstring option"
  u_address :: "jsstring option"
  u_city :: "jsstring option"
  u_capacity :: "int option"
  u_description :: "jsstring option"
  u_cancellationPolicy :: "jsstring option"
  u_isPremium :: "bool option"
  u_status :: "HallStatus option"
  u_gerantId :: "uuid option option"

text \<open>The query of \<open>generateUniqueSlug\<close>: a hall with this slug, other than \<open>excludeId\<close>
  when that is given (and truthy).\<close>

definition slugQuery :: "uuid option \<Rightarrow> jsstring \<Rightarrow> hall \<Rightarrow> bool" where
  "slugQuery excludeId candidate h =
     (hall_slug h = candidate \<and>
      (case excludeId of None \<Rightarrow> True | Some e \<Rightarrow> if truthy e then hall_id h \<noteq> e else True))"

definition slugCandidate :: "jsstring \<Rightarrow> nat \<Rightarrow> jsstring" where
  "slugCandidate baseSlug counter = baseSlug @ [dash] @ numberToString counter"

text \<open>The measure of the loop: the halls that a later candidate could still hit, and
  whether the present one is hit.\<close>

definition slugLoopMeasure :: "database \<times> uuid option \<times> jsstring \<times> nat \<times> jsstring \<Rightarrow> nat" where
  "slugLoopMeasure = (\<lambda>(db, excludeId, baseSlug, counter, candidate).
     2 * length (filter (\<lambda>h. \<exists>k>counter. slugQuery excludeId (slugCandidate baseSlug k) h) (halls db))
     + (if find (slugQuery excludeId candidate) (halls db) = None then 0 else 1))"

lemma inj_digitChar: "digitChar a = digitChar b \<Longrightarrow> a = b"
  by (auto simp: digitChar_def split: if_splits)

lemma toRadix_nonempty: "toRadix b n \<noteq> []"
  by (subst toRadix.simps) simp

lemma toRadix_inj: "2 \<le> b \<Longrightarrow> toRadix b n = toRadix b m \<Longrightarrow> n = m"
proof (induction b n arbitrary: m rule: toRadix.induct)
  case (1 b n)
  show ?case
  proof (cases "n < b")
    case nsmall: True
    show ?thesis
    proof (cases "m < b")
      case True
      with nsmall "1.prems" show ?thesis
        by (simp add: toRadix.simps[of b n] toRadix.simps[of b m] inj_digitChar)
    next
      case False
      with nsmall "1.prems" toRadix_nonempty[of b "m div b"] show ?thesis
        by (simp add: toRadix.simps[of b n] toRadix.simps[of b m])
    qed
  next
    case nbig: False
    show ?thesis
    proof (cases "m < b")
      case True
      with nbig "1.prems" toRadix_nonempty[of b "n div b"] show ?thesis
        by (simp add: toRadix.simps[of b n] toRadix.simps[of b m])
    next
      case False
      with nbig "1.prems" have eq: "toRadix b (n div b) = toRadix b (m div b)"
        and dg: "digitChar (n mod b) = digitChar (m mod b)"
        by (simp_all add: toRadix.simps[of b n] toRadix.simps[of b m])
      from nbig "1.prems"(1) have "\<not> (b < 2 \<or> n < b)" by simp
      from "1.IH"[OF this "1.prems"(1) eq] have "n div b = m div b" .
      moreover from dg have "n mod b = m mod b" by (rule inj_digitChar)
      ultimately show ?thesis by (metis div_mult_mod_eq)
    qed
  qed
qed

lemma slugCandidate_inj: "slugCandidate b j = slugCandidate b k \<Longrightarrow> j = k"
  using toRadix_inj[of 10 j k] by (simp add: slugCandidate_def numberToString_def)

lemma filter_length_mono:
  assumes "\<And>x. P x \<Longrightarrow> Q x"
  shows "length (filter P xs) \<le> length (filter Q xs)"
  using assms by (induction xs) auto

lemma filter_length_less:
  assumes "\<And>x. P x \<Longrightarrow> Q x" and "x \<in> set xs" and "Q x" and "\<not> P x"
  shows "length (filter P xs) < length (filter Q xs)"
proof -
  have "filter P xs = filter P (filter Q xs)"
    using assms(1) by (induction xs) auto
  moreover have "x \<in> set (filter Q xs)" using assms(2,3) by simp
  ultimately show ?thesis
    using assms(4) length_filter_less[of x "filter Q xs" P] by simp
qed

function uniqueSlugLoop ::
  "database \<Rightarrow> uuid option \<Rightarrow> jsstring \<Rightarrow> nat \<Rightarrow> jsstring \<Rightarrow> jsstring" where
  "uniqueSlugLoop db excludeId baseSlug counter candidate =
     (case find (slugQuery excludeId candidate) (halls db) of
        None \<Rightarrow> candidate
      | Some existing \<Rightarrow>
          uniqueSlugLoop db excludeId baseSlug (counter + 1) (slugCandidate baseSlug (counter + 1)))"
  by pat_completeness auto
termination
proof (relation "measure slugLoopMeasure", goal_cases)
  case 1
  show ?case by simp
next
  case (2 db excludeId baseSlug counter candidate existing)
  let ?P = "\<lambda>h. \<exists>k>counter + 1. slugQuery excludeId (slugCandidate baseSlug k) h"
  let ?Q = "\<lambda>h. \<exists>k>counter. slugQuery excludeId (slugCandidate baseSlug k) h"
  have imp: "\<And>x. ?P x \<Longrightarrow> ?Q x" by (meson add_lessD1)
  have le: "length (filter ?P (halls db)) \<le> length (filter ?Q (halls db))"
    using imp by (rule filter_length_mono)
  show ?case
  proof (cases "find (slugQuery excludeId (slugCandidate baseSlug (counter + 1))) (halls db)")
    case None
    with 2 le show ?thesis by (simp add: slugLoopMeasure_def)
  next
    case (Some h)
    then have hin: "h \<in> set (halls db)"
      and hq: "slugQuery excludeId (slugCandidate baseSlug (counter + 1)) h"
      by (auto simp: find_Some_iff in_set_conv_nth)
    have "\<not> ?P h"
    proof
      assume "?P h"
      then obtain k where "k > counter + 1" "slugQuery excludeId (slugCandidate baseSlug k) h"
        by blast
      with hq have "slugCandidate baseSlug k = slugCandidate baseSlug (counter + 1)"
        by (simp add: slugQuery_def)
      with \<open>k > counter + 1\<close> show False by (auto dest: slugCandidate_inj)
    qed
    moreover have "?Q h" using hq by (intro exI[of _ "counter + 1"]) simp
    ultimately have "length (filter ?P (halls db)) < length (filter ?Q (halls db))"
      using hin imp filter_length_less[of ?P ?Q h "halls db"] by blast
    with 2 Some show ?thesis by (simp add: slugLoopMeasure_def)
  qed
qed

declare uniqueSlugLoop.simps [simp del]

text \<open>The first lines of \<open>generateUniqueSlug\<close>: the slugified base, or the fallback when
  that is empty.\<close>

definition baseSlugOf :: "platform \<Rightarrow> timestamp \<Rightarrow> jsstring \<Rightarrow> jsstring" where
  "baseSlugOf pf now base =
     (let slugified = slugify pf base
      in if slugified = [] then generateFallbackBaseSlug now else slugified)"

definition generateUniqueSlug ::
  "platform \<Rightarrow> timestamp \<Rightarrow> database \<Rightarrow> jsstring \<Rightarrow> uuid option \<Rightarrow> jsstring" where
  "generateUniqueSlug pf now db base excludeId =
     (let baseSlug = baseSlugOf pf now base
      in uniqueSlugLoop db excludeId baseSlug 1 baseSlug)"

fun joinSpace :: "jsstring list \<Rightarrow> jsstring" where
  "joinSpace [] = []"
| "joinSpace [x] = x"
| "joinSpace (x # y # ys) = x @ [32] @ joinSpace (y # ys)"

text \<open>\<open>[payload.name, payload.city].filter(Boolean).join(" ")\<close>\<close>

definition nameAndCity :: "jsstring \<Rightarrow> jsstring option \<Rightarrow> jsstring" where
  "nameAndCity name city =
     joinSpace (filter truthy (name # (case city of None \<Rightarrow> [] | Some c \<Rightarrow> [c])))"

text \<open>The base value for the slug in \<open>createHall\<close>: the explicit slug, else name and
  city, else the fallback.\<close>

definition baseForSlug :: "timestamp \<Rightarrow> CreateHallPayload \<Rightarrow> jsstring" where
  "baseForSlug now payload =
     (let baseForSlugRaw =
            (case c_slug payload of
               None \<Rightarrow> nameAndCity (c_name payload) (c_city payload)
             | Some s \<Rightarrow>
                 if truthy s \<and> truthy (trim s) then trim s
                 else nameAndCity (c_name payload) (c_city payload))
      in if truthy baseForSlugRaw \<and> length (trim baseForSlugRaw) > 0 then baseForSlugRaw
         else generateFallbackBaseSlug now)"

definition createHall ::
  "platform \<Rightarrow> timestamp \<Rightarrow> database \<Rightarrow> CreateHallPayload \<Rightarrow> hall \<times> database" where
  "createHall pf now db payload =
     (let finalSlug = generateUniqueSlug pf now db (baseForSlug now payload) None;
          (newId, db1) = nextUuid pf db;
          saved = \<lparr> hall_id = newId,
                    hall_gerantId = c_gerantId payload,
                    hall_name = trim (c_name payload),
                    hall_slug = finalSlug,
                    hall_address = c_address payload,
                    hall_city = c_city payload,
                    hall_capacity = c_capacity payload,
                    hall_description = c_description payload,
                    hall_cancellationPolicy = c_cancellationPolicy payload,
                    hall_isPremium = (case c_isPremium payload of None \<Rightarrow> False | Some b \<Rightarrow> b),
                    hall_status = (case c_status payload of None \<Rightarrow> DRAFT | Some st \<Rightarrow> st),
                    hall_createdAt = now,
                    hall_updatedAt = now \<rparr>;
          db2 = db1\<lparr>halls := halls db1 @ [saved]\<rparr>;
          db3 =
            (case c_gerantId payload of
               None \<Rightarrow> db2
             | Some g \<Rightarrow>
                 if truthy g then
                   (let (roleId, db') = nextUuid pf db2
                    in db'\<lparr>hallUserRoles := hallUserRoles db' @
                          [\<lparr> hur_id = roleId, hur_hall = hall_id saved, hur_user = g,
                             hur_role = OWNER, hur_created_at = now \<rparr>]\<rparr>)
                 else db2)
      in (saved, db3))"

text \<open>\<open>repository.save\<close> of a loaded row: the row with that primary key is replaced; the
  update timestamp moves when a column changed.\<close>

definition saveHall :: "timestamp \<Rightarrow> hall \<Rightarrow> hall \<Rightarrow> database \<Rightarrow> hall \<times> database" where
  "saveHall now loaded changed db =
     (let saved = (if changed = loaded then changed else changed\<lparr>hall_updatedAt := now\<rparr>)
      in (saved, db\<lparr>halls := map (\<lambda>h. if hall_id h = hall_id saved then saved else h) (halls db)\<rparr>))"

text \<open>\<open>if (payload.x !== undefined) hall.x = \<dots>\<close>\<close>

definition whenDefined :: "'a option \<Rightarrow> ('a \<Rightarrow> 'b \<Rightarrow> 'b) \<Rightarrow> 'b \<Rightarrow> 'b" where
  "whenDefined v f x = (case v of None \<Rightarrow> x | Some a \<Rightarrow> f a x)"

definition mergeHallFields :: "UpdateHallPayload \<Rightarrow> hall \<Rightarrow> hall" where
  "mergeHallFields payload h1 =
     (let h2 = whenDefined (u_name payload) (\<lambda>n h. h\<lparr>hall_name := trim n\<rparr>) h1;
          h3 = whenDefined (u_address payload) (\<lambda>a h. h\<lparr>hall_address := Some a\<rparr>) h2;
          h4 = whenDefined (u_city payload) (\<lambda>c h. h\<lparr>hall_city := Some c\<rparr>) h3;
          h5 = whenDefined (u_capacity payload) (\<lambda>c h. h\<lparr>hall_capacity := Some c\<rparr>) h4;
          h6 = whenDefined (u_description payload) (\<lambda>d h. h\<lparr>hall_description := Some d\<rparr>) h5;
          h7 = whenDefined (u_cancellationPolicy payload)
                 (\<lambda>c h. h\<lparr>hall_cancellationPolicy := Some c\<rparr>) h6;
          h8 = whenDefined (u_isPremium payload) (\<lambda>b h. h\<lparr>hall_isPremium := b\<rparr>) h7;
          h9 = whenDefined (u_status payload) (\<lambda>st h. h\<lparr>hall_status := st\<rparr>) h8
      in whenDefined (u_gerantId payload) (\<lambda>g h. h\<lparr>hall_gerantId := g\<rparr>) h9)"

text \<open>The owner role follows a changed \<open>gerantId\<close>: the \<open>OWNER\<close> rows of the hall are
  deleted and, for a new owner, one is inserted.\<close>

definition syncOwnerRole ::
  "platform \<Rightarrow> timestamp \<Rightarrow> UpdateHallPayload \<Rightarrow> uuid option \<Rightarrow> hall \<Rightarrow> hall \<Rightarrow> database
     \<Rightarrow> database" where
  "syncOwnerRole pf now payload previousGerantId hall saved db1 =
     (case u_gerantId payload of
        None \<Rightarrow> db1
      | Some g \<Rightarrow>
          if g \<noteq> previousGerantId then
            (let db2 = db1\<lparr>hallUserRoles :=
                         filter (\<lambda>r. \<not> (hur_hall r = hall_id hall \<and> hur_role r = OWNER))
                           (hallUserRoles db1)\<rparr>
             in case g of
                  None \<Rightarrow> db2
                | Some newOwner \<Rightarrow>
                    if truthy newOwner then
                      (let (roleId, db') = nextUuid pf db2
                       in db'\<lparr>hallUserRoles := hallUserRoles db' @
                             [\<lparr> hur_id = roleId, hur_hall = hall_id saved,
                                hur_user = newOwner, hur_role = OWNER,
                                hur_created_at = now \<rparr>]\<rparr>)
                    else db2)
          else db1)"

definition updateHall ::
  "platform \<Rightarrow> timestamp \<Rightarrow> database \<Rightarrow> uuid \<Rightarrow> UpdateHallPayload \<Rightarrow> (error + hall) \<times> database" where
  "updateHall pf now db ident payload =
     (case find (\<lambda>h. hall_id h = ident) (halls db) of
        None \<Rightarrow> (Inl (NotFoundError ''Hall not found''), db)
      | Some hall \<Rightarrow>
          (let previousGerantId = hall_gerantId hall;
               h1 = (case u_slug payload of
                       None \<Rightarrow> hall
                     | Some s \<Rightarrow>
                         if truthy s \<and> truthy (trim s) \<and> toLowerCase pf (trim s) \<noteq> hall_slug hall
                         then hall\<lparr>hall_slug := generateUniqueSlug pf now db s (Some (hall_id hall))\<rparr>
                         else hall);
               (saved, db1) = saveHall now hall (mergeHallFields payload h1) db
           in (Inr saved, syncOwnerRole pf now payload previousGerantId hall saved db1)))"

definition getHallById :: "database \<Rightarrow> uuid \<Rightarrow> error + hall" where
  "getHallById db ident =
     (case find (\<lambda>h. hall_id h = ident) (halls db) of
        None \<Rightarrow> Inl (NotFoundError ''Hall not found'')
      | Some hall \<Rightarrow> Inr hall)"

definition getHallBySlug :: "platform \<Rightarrow> database \<Rightarrow> jsstring \<Rightarrow> error + hall" where
  "getHallBySlug pf db slug =
     (let normalizedSlug = slugify pf slug
      in case find (\<lambda>h. hall_slug h = normalizedSlug) (halls db) of
           None \<Rightarrow> Inl (NotFoundError ''Hall not found'')
         | Some hall \<Rightarrow> Inr hall)"

record ListHallsOptions =
  lo_status :: "HallStatus option"
  lo_city :: "jsstring option"
  lo_isPremium :: "bool option"
  lo_gerantId :: "uuid option"
  lo_page :: "int option"
  lo_limit :: "int option"

record 'a paged =
  pg_data :: "'a list"
  pg_page :: int
  pg_limit :: int
  pg_total :: nat

text \<open>The \<open>WHERE\<close> clause of \<open>listHalls\<close>. A comparison with a \<open>NULL\<close> column is not
  true, so a hall without city or owner fails a filter on that column.\<close>

definition listHallsWhere :: "platform \<Rightarrow> ListHallsOptions \<Rightarrow> hall \<Rightarrow> bool" where
  "listHallsWhere pf options h =
     ((case lo_status options of None \<Rightarrow> True | Some st \<Rightarrow> hall_status h = st) \<and>
      (case lo_city options of
         None \<Rightarrow> True
       | Some c \<Rightarrow>
           if truthy c then
             (case hall_city h of None \<Rightarrow> False | Some hc \<Rightarrow> pgLower pf hc = pgLower pf c)
           else True) \<and>
      (case lo_isPremium options of None \<Rightarrow> True | Some b \<Rightarrow> hall_isPremium h = b) \<and>
      (case lo_gerantId options of
         None \<Rightarrow> True
       | Some g \<Rightarrow> if truthy g then hall_gerantId h = Some g else True))"

definition listHalls :: "platform \<Rightarrow> database \<Rightarrow> ListHallsOptions \<Rightarrow> hall paged" where
  "listHalls pf db options =
     (let page = (case lo_page options of None \<Rightarrow> 1 | Some p \<Rightarrow> if p \<noteq> 0 \<and> p > 0 then p else 1);
          limit = (case lo_limit options of
                     None \<Rightarrow> 20
                   | Some l \<Rightarrow> if l \<noteq> 0 \<and> l > 0 \<and> l \<le> 100 then l else 20);
          matching = filter (listHallsWhere pf options) (halls db);
          ordered = orderBy (\<lambda>a b. hall_createdAt b \<le> hall_createdAt a) matching
      in \<lparr> pg_data = take (nat limit) (drop (nat ((page - 1) * limit)) ordered),
           pg_page = page, pg_limit = limit, pg_total = length matching \<rparr>)"

section \<open>Pricing service: list operations\<close>

definition listHallProducts :: "database \<Rightarrow> uuid \<Rightarrow> bool option \<Rightarrow> hallProduct list" where
  "listHallProducts db hallId isActive =
     orderBy (\<lambda>a b. (hp_isPrimary a \<and> \<not> hp_isPrimary b) \<or>
                     (hp_isPrimary a = hp_isPrimary b \<and> hp_createdAt a \<le> hp_createdAt b))
       (filter (\<lambda>p. hp_hallId p = hallId \<and>
                      (case isActive of None \<Rightarrow> True | Some a \<Rightarrow> hp_isActive p = a))
          (hallProducts db))"

definition getActiveProductsForHall :: "database \<Rightarrow> uuid \<Rightarrow> hallProduct list" where
  "getActiveProductsForHall db hallId = listHallProducts db hallId (Some True)"

definition listHallProductRates :: "database \<Rightarrow> uuid \<Rightarrow> hallProductRate list" where
  "listHallProductRates db hallProductId =
     orderBy (\<lambda>a b. hpr_createdAt a \<le> hpr_createdAt b)
       (filter (\<lambda>r. hpr_hallProductId r = hallProductId) (hallProductRates db))"

definition listHallAddons :: "database \<Rightarrow> uuid \<Rightarrow> bool option \<Rightarrow> hallAddon list" where
  "listHallAddons db hallId isActive =
     orderBy (\<lambda>a b. ha_createdAt a \<le> ha_createdAt b)
       (filter (\<lambda>a. ha_hallId a = hallId \<and>
                      (case isActive of None \<Rightarrow> True | Some act \<Rightarrow> ha_isActive a = act))
          (hallAddons db))"

text \<open>The date filters of \<open>listHallBlockedDates\<close> are present when the option is a
  non-empty date text; the model takes the date it denotes.\<close>

definition listHallBlockedDates ::
  "database \<Rightarrow> uuid \<Rightarrow> pgdate option \<Rightarrow> pgdate option \<Rightarrow> hallBlockedDate list" where
  "listHallBlockedDates db hallId fromDate toDate =
     orderBy (\<lambda>a b. hbd_startDate a \<le> hbd_startDate b)
       (filter (\<lambda>b. hbd_hallId b = hallId \<and>
                      (case fromDate of None \<Rightarrow> True | Some d \<Rightarrow> hbd_startDate b \<ge> d) \<and>
                      (case toDate of None \<Rightarrow> True | Some d \<Rightarrow> hbd_startDate b \<le> d))
          (hallBlockedDates db))"

section \<open>Media service\<close>

record TagMediaOptions =
  tm_mediaId :: uuid
  tm_tagName :: jsstring
  tm_isPrimary :: "bool option"

record mediaTagDTO =
  mtd_id :: uuid
  mtd_mediaId :: uuid
  mtd_tagTypeId :: uuid
  mtd_tagName :: jsstring
  mtd_isPrimary :: bool
  mtd_createdAt :: timestamp

text \<open>A new tag type is inserted only when no name matches case-insensitively, so the
  unique constraint on the name cannot fire there.\<close>

definition findOrCreateTagTypeByName ::
  "platform \<Rightarrow> timestamp \<Rightarrow> database \<Rightarrow> jsstring \<Rightarrow> mediaTagType \<times> database" where
  "findOrCreateTagTypeByName pf now db name =
     (let normalized = trim name
      in case find (\<lambda>t. pgLower pf (mtt_name t) = pgLower pf normalized) (mediaTagTypes db) of
           Some tagType \<Rightarrow> (tagType, db)
         | None \<Rightarrow>
             (let (newId, db1) = nextUuid pf db;
                  tagType = \<lparr> mtt_id = newId, mtt_name = normalized, mtt_description = None,
                              mtt_createdAt = now \<rparr>
              in (tagType, db1\<lparr>mediaTagTypes := mediaTagTypes db1 @ [tagType]\<rparr>)))"

text \<open>The query of \<open>unsetExistingPrimaryForHallAndTagType\<close>: the primary tags of a tag
  type whose media belongs to the hall.\<close>

definition primaryTagsOf :: "database \<Rightarrow> uuid \<Rightarrow> uuid \<Rightarrow> mediaTag list" where
  "primaryTagsOf db hallId tagTypeId =
     filter (\<lambda>mt. (\<exists>m \<in> set (mediaRows db). m_id m = mt_mediaId mt \<and> m_hallId m = hallId) \<and>
                   mt_tagTypeId mt = tagTypeId \<and> mt_isPrimary mt)
       (mediaTags db)"

definition unsetExistingPrimaryForHallAndTagType :: "database \<Rightarrow> uuid \<Rightarrow> uuid \<Rightarrow> database" where
  "unsetExistingPrimaryForHallAndTagType db hallId tagTypeId =
     (let existingPrimaryTags = primaryTagsOf db hallId tagTypeId
      in if existingPrimaryTags = [] then db
         else db\<lparr>mediaTags :=
                map (\<lambda>mt. case find (\<lambda>e. mt_id e = mt_id mt) existingPrimaryTags of
                             None \<Rightarrow> mt
                           | Some tag \<Rightarrow> tag\<lparr>mt_isPrimary := False\<rparr>)
                  (mediaTags db)\<rparr>)"

text \<open>The insert of the new tag fails on the unique constraint \<open>uq_media_tag\<close> when the
  media already carries a tag of that type; what was written before stays written.\<close>

definition tagMediaByName ::
  "platform \<Rightarrow> timestamp \<Rightarrow> database \<Rightarrow> TagMediaOptions \<Rightarrow> (error + mediaTagDTO) \<times> database" where
  "tagMediaByName pf now db options =
     (let isPrimary = (case tm_isPrimary options of None \<Rightarrow> False | Some b \<Rightarrow> b)
      in case find (\<lambda>m. m_id m = tm_mediaId options) (mediaRows db) of
           None \<Rightarrow> (Inl (NotFoundError ''Media not found''), db)
         | Some media \<Rightarrow>
             (let (tagType, db1) = findOrCreateTagTypeByName pf now db (tm_tagName options);
                  db2 = (if isPrimary
                         then unsetExistingPrimaryForHallAndTagType db1 (m_hallId media) (mtt_id tagType)
                         else db1)
              in if \<exists>mt \<in> set (mediaTags db2).
                      mt_mediaId mt = m_id media \<and> mt_tagTypeId mt = mtt_id tagType
                 then (Inl (QueryFailedError ''duplicate key value violates unique constraint uq_media_tag''), db2)
                 else
                   (let (newId, db3) = nextUuid pf db2;
                        saved = \<lparr> mt_id = newId, mt_mediaId = m_id media,
                                  mt_tagTypeId = mtt_id tagType, mt_isPrimary = isPrimary,
                                  mt_createdAt = now \<rparr>
                    in (Inr \<lparr> mtd_id = mt_id saved, mtd_mediaId = mt_mediaId saved,
                              mtd_tagTypeId = mt_tagTypeId saved, mtd_tagName = mtt_name tagType,
                              mtd_isPrimary = mt_isPrimary saved, mtd_createdAt = mt_createdAt saved \<rparr>,
                        db3\<lparr>mediaTags := mediaTags db3 @ [saved]\<rparr>))))"

text \<open>\<open>ASC\<close> puts \<open>NULL\<close> last, \<open>DESC NULLS LAST\<close> is asked for where the source does.\<close>

fun ascNullsLast :: "'a::linorder option \<Rightarrow> 'a option \<Rightarrow> bool" where
  "ascNullsLast (Some x) (Some y) = (x \<le> y)"
| "ascNullsLast (Some x) None = True"
| "ascNullsLast None (Some y) = False"
| "ascNullsLast None None = True"


text \<open>Two sort keys, the second deciding among rows equal under the first.\<close>

definition thenBy :: "('a \<Rightarrow> 'a \<Rightarrow> bool) \<Rightarrow> ('a \<Rightarrow> 'a \<Rightarrow> bool) \<Rightarrow> 'a \<Rightarrow> 'a \<Rightarrow> bool" where
  "thenBy le1 le2 a b = (le1 a b \<and> (le1 b a \<longrightarrow> le2 a b))"

text \<open>Whether a media row has a tag whose type name matches, case-insensitively: the two
  inner joins of the media queries.\<close>

definition hasTagNamed :: "platform \<Rightarrow> database \<Rightarrow> jsstring \<Rightarrow> bool \<Rightarrow> media \<Rightarrow> bool" where
  "hasTagNamed pf db tagName primaryOnly m =
     (\<exists>mt \<in> set (mediaTags db). mt_mediaId mt = m_id m \<and> (primaryOnly \<longrightarrow> mt_isPrimary mt) \<and>
        (\<exists>mtt \<in> set (mediaTagTypes db). mtt_id mtt = mt_tagTypeId mt \<and>
           pgLower pf (mtt_name mtt) = pgLower pf tagName))"

definition listMediaForHall ::
  "platform \<Rightarrow> database \<Rightarrow> uuid \<Rightarrow> jsstring option \<Rightarrow> MediaType option \<Rightarrow> media list" where
  "listMediaForHall pf db hallId tagName mediaType =
     orderBy (thenBy (\<lambda>a b. ascNullsLast (m_sortOrder a) (m_sortOrder b))
                     (\<lambda>a b. m_createdAt b \<le> m_createdAt a))
       (filter (\<lambda>m. m_hallId m = hallId \<and>
                      (case mediaType of None \<Rightarrow> True | Some t \<Rightarrow> m_mediaType m = t) \<and>
                      (case tagName of
                         None \<Rightarrow> True
                       | Some n \<Rightarrow> if truthy n then hasTagNamed pf db n False m else True))
          (mediaRows db))"

definition getPrimaryMediaForHall :: "platform \<Rightarrow> database \<Rightarrow> uuid \<Rightarrow> jsstring \<Rightarrow> media option" where
  "getPrimaryMediaForHall pf db hallId tagName =
     (case orderBy (\<lambda>a b. m_createdAt b \<le> m_createdAt a)
             (filter (\<lambda>m. m_hallId m = hallId \<and> hasTagNamed pf db tagName True m) (mediaRows db)) of
        [] \<Rightarrow> None
      | m # rest \<Rightarrow> Some m)"

section \<open>Hall query service\<close>



















record PublicHallRateDTO =
  prate_id :: uuid
  prate_label :: jsstring
  prate_currency :: jsstring
  prate_price :: rat
  prate_billingUnit :: jsstring
  prate_minHours :: "int option"
  prate_maxHours :: "int option"
  prate_extraUnitPrice :: "rat option"
  prate_dayOfWeekMask :: "jsstring option"
  prate_seasonStart :: "pgdate option"
  prate_seasonEnd :: "pgdate option"
  prate_isDefault :: bool

record PublicHallProductDTO =
  pprod_id :: uuid
  pprod_name :: jsstring
  pprod_category :: "jsstring option"
  pprod_description :: "jsstring option"
  pprod_isPrimary :: bool
  pprod_rates :: "PublicHallRateDTO list"

record PublicHallAddonDTO =
  paddon_id :: uuid
  paddon_name :: jsstring
  paddon_description :: "jsstring option"
  paddon_pricingModel :: jsstring
  paddon_currency :: jsstring
  paddon_unitPrice :: rat
  paddon_packSize :: "int option"
  paddon_isActive :: bool

record PublicHallDetailDTO =
  detail_id :: uuid
  detail_name :: jsstring
  detail_slug :: jsstring
  detail_address :: "jsstring option"
  detail_city :: "jsstring option"
  detail_capacity :: "int option"
  detail_description :: "jsstring option"
  detail_cancellationPolicy :: "jsstring option"
  detail_isPremium :: bool
  detail_heroImageUrl :: "jsstring option"
  detail_gallery :: "media list"
  detail_products :: "PublicHallProductDTO list"
  detail_addons :: "PublicHallAddonDTO list"

definition toPublicRate :: "hallProductRate \<Rightarrow> PublicHallRateDTO" where
  "toPublicRate r =
     \<lparr> prate_id = hpr_id r, prate_label = hpr_label r, prate_currency = hpr_currency r,
       prate_price = hpr_price r, prate_billingUnit = hpr_billingUnit r,
       prate_minHours = hpr_minHours r, prate_maxHours = hpr_maxHours r,
       prate_extraUnitPrice = hpr_extraUnitPrice r, prate_dayOfWeekMask = hpr_dayOfWeekMask r,
       prate_seasonStart = hpr_seasonStart r, prate_seasonEnd = hpr_seasonEnd r,
       prate_isDefault = hpr_isDefault r \<rparr>"

definition toPublicProduct :: "database \<Rightarrow> hallProduct \<Rightarrow> PublicHallProductDTO" where
  "toPublicProduct db product =
     \<lparr> pprod_id = hp_id product, pprod_name = hp_name product,
       pprod_category = hp_category product, pprod_description = hp_description product,
       pprod_isPrimary = hp_isPrimary product,
       pprod_rates = map toPublicRate (listHallProductRates db (hp_id product)) \<rparr>"

definition toPublicAddon :: "hallAddon \<Rightarrow> PublicHallAddonDTO" where
  "toPublicAddon a =
     \<lparr> paddon_id = ha_id a, paddon_name = ha_name a, paddon_description = ha_description a,
       paddon_pricingModel = ha_pricingModel a, paddon_currency = ha_currency a,
       paddon_unitPrice = ha_unitPrice a, paddon_packSize = ha_packSize a,
       paddon_isActive = ha_isActive a \<rparr>"

text \<open>The detail page only reads; the database it returns is the one it was given.\<close>

definition getPublicHallDetail ::
  "platform \<Rightarrow> database \<Rightarrow> jsstring \<Rightarrow> (error + PublicHallDetailDTO) \<times> database" where
  "getPublicHallDetail pf db slug =
     (case getHallBySlug pf db slug of
        Inl e \<Rightarrow> (Inl e, db)
      | Inr hall \<Rightarrow>
          if hall_status hall \<noteq> ACTIVE then (Inl (NotFoundError ''Hall not found''), db)
          else
            (let hero = getPrimaryMediaForHall pf db (hall_id hall) (str ''HERO'');
                 gallery = listMediaForHall pf db (hall_id hall) None (Some IMAGE);
                 publicProducts = map (toPublicProduct db) (getActiveProductsForHall db (hall_id hall));
                 publicAddons = map toPublicAddon (listHallAddons db (hall_id hall) (Some True))
             in (Inr \<lparr> detail_id = hall_id hall, detail_name = hall_name hall,
                       detail_slug = hall_slug hall, detail_address = hall_address hall,
                       detail_city = hall_city hall, detail_capacity = hall_capacity hall,
                       detail_description = hall_description hall,
                       detail_cancellationPolicy = hall_cancellationPolicy hall,
                       detail_isPremium = hall_isPremium hall,
                       detail_heroImageUrl = (case hero of None \<Rightarrow> None | Some m \<Rightarrow> Some (m_fileUrl m)),
                       detail_gallery = gallery, detail_products = publicProducts,
                       detail_addons = publicAddons \<rparr>, db)))"

section \<open>Host application service\<close>






section \<open>Notions used in the statements\<close>



text \<open>Slug text: lower-case ASCII letters, digits and dashes. The runtime functions leave
  such text unchanged (\<open>keepsSlugText\<close>, a fact about \<open>toLowerCase\<close> and \<open>normalize\<close>).
  A text has slug form when its dashes are single and not at either end (\<open>wellDashed\<close>
  tracks whether the previous character was a dash).\<close>

definition isSlugText :: "jsstring \<Rightarrow> bool" where
  "isSlugText t = (\<forall>c \<in> set t. isAlnum c \<or> c = dash)"

definition keepsSlugText :: "platform \<Rightarrow> bool" where
  "keepsSlugText pf = (\<forall>t. isSlugText t \<longrightarrow> toLowerCase pf t = t \<and> normalizeNFD pf t = t)"

fun wellDashed :: "bool \<Rightarrow> jsstring \<Rightarrow> bool" where
  "wellDashed prev [] = True"
| "wellDashed prev (c # cs) =
     (if isAlnum c then wellDashed False cs else c = dash \<and> \<not> prev \<and> wellDashed True cs)"

definition slugForm :: "jsstring \<Rightarrow> bool" where
  "slugForm t = (wellDashed False t \<and> (t \<noteq> [] \<longrightarrow> hd t \<noteq> dash \<and> last t \<noteq> dash))"

text \<open>Every stored slug has slug form.\<close>

definition slugsInForm :: "database \<Rightarrow> bool" where
  "slugsInForm db = (\<forall>h \<in> set (halls db). slugForm (hall_slug h))"




definition afterUnset :: "platform \<Rightarrow> timestamp \<Rightarrow> database \<Rightarrow> TagMediaOptions \<Rightarrow> media \<Rightarrow> database" where
  "afterUnset pf now db options media =
     (let r = findOrCreateTagTypeByName pf now db (tm_tagName options)
      in if (case tm_isPrimary options of None \<Rightarrow> False | Some b \<Rightarrow> b)
         then unsetExistingPrimaryForHallAndTagType (snd r) (m_hallId media) (mtt_id (fst r))
         else snd r)"







section \<open>Example data\<close>

text \<open>A platform for the examples: ASCII lower-casing, no decomposition (right on ASCII
  text), a keyword match that is equality up to ASCII case (no example searches by
  keyword), and numbered identifiers.\<close>

definition asciiLower :: "jsstring \<Rightarrow> jsstring" where
  "asciiLower s = map (\<lambda>c. if 65 \<le> c \<and> c \<le> 90 then c + 32 else c) s"

definition testPlatform :: platform where
  "testPlatform =
     \<lparr> toLowerCase = asciiLower, normalizeNFD = (\<lambda>s. s), pgLower = asciiLower,
       pgILike = (\<lambda>v p. asciiLower v = asciiLower p),
       uuidGen = (\<lambda>k. str ''id-'' @ numberToString k) \<rparr>"

definition emptyDb :: database where
  "emptyDb = \<lparr> halls = [], hallUserRoles = [], hallProducts = [], hallProductRates = [],
               hallAddons = [], hallBlockedDates = [], mediaRows = [], mediaTags = [],
               mediaTagTypes = [], hostApplications = [], uuidCount = 0 \<rparr>"

definition lakeviewPayload :: CreateHallPayload where
  "lakeviewPayload =
     \<lparr> c_name = str ''Lakeview'', c_slug = None, c_address = None,
       c_city = Some (str ''Kinshasa''), c_capacity = None, c_description = None,
       c_cancellationPolicy = None, c_isPremium = None, c_status = None, c_gerantId = None \<rparr>"

definition dbLakeview1 :: database where
  "dbLakeview1 = snd (createHall testPlatform 1 emptyDb lakeviewPayload)"





definition exampleHall :: "uuid \<Rightarrow> jsstring \<Rightarrow> HallStatus \<Rightarrow> timestamp \<Rightarrow> hall" where
  "exampleHall ident slug st created =
     \<lparr> hall_id = ident, hall_gerantId = None, hall_name = slug, hall_slug = slug,
       hall_address = None, hall_city = None, hall_capacity = None, hall_description = None,
       hall_cancellationPolicy = None, hall_isPremium = False, hall_status = st,
       hall_createdAt = created, hall_updatedAt = created \<rparr>"

definition statusDb :: database where
  "statusDb = emptyDb\<lparr>halls :=
     [exampleHall (str ''h1'') (str ''alpha'') DRAFT 1,
      exampleHall (str ''h2'') (str ''beta'') ACTIVE 2,
      exampleHall (str ''h3'') (str ''gamma'') ARCHIVED 3]\<rparr>"

definition activeOnly :: ListHallsOptions where
  "activeOnly = \<lparr> lo_status = Some ACTIVE, lo_city = None, lo_isPremium = None,
                  lo_gerantId = None, lo_page = None, lo_limit = None \<rparr>"

definition exampleBlockedDate :: "uuid \<Rightarrow> uuid \<Rightarrow> pgdate \<Rightarrow> timestamp \<Rightarrow> hallBlockedDate" where
  "exampleBlockedDate ident hallId start created =
     \<lparr> hbd_id = ident, hbd_hallId = hallId, hbd_startDate = start, hbd_endDate = None,
       hbd_reason = None, hbd_createdByUserId = None, hbd_createdAt = created \<rparr>"

definition blockedDb :: database where
  "blockedDb = emptyDb\<lparr>hallBlockedDates :=
     [exampleBlockedDate (str ''b1'') (str ''h1'') 20 1,
      exampleBlockedDate (str ''b2'') (str ''h1'') 10 2]\<rparr>"

definition examplePayload :: UpdateHallPayload where
  "examplePayload =
     \<lparr> u_name = Some (str ''New name''), u_slug = None, u_address = None, u_city = None,
       u_capacity = None, u_description = None, u_cancellationPolicy = None,
       u_isPremium = None, u_status = Some ACTIVE, u_gerantId = None \<rparr>"

definition ownedPayload :: CreateHallPayload where
  "ownedPayload = lakeviewPayload\<lparr>c_gerantId := Some (str ''user-a'')\<rparr>"

definition ownedDb :: database where
  "ownedDb = snd (createHall testPlatform 1 emptyDb ownedPayload)"















section \<open>Slug generation: uniqueness and sequential suffixes\<close>

lemmas slug_eval = slugify_def testPlatform_def nameAndCity_def truthy_def str_def asciiLower_def
  isCombiningMark_def isAlnum_def trimDashes_def dash_def trim_def isWhiteSpace_def
  baseForSlug_def baseSlugOf_def generateUniqueSlug_def uniqueSlugLoop.simps slugQuery_def
  slugCandidate_def numberToString_def toRadix.simps digitChar_def generateFallbackBaseSlug_def
  createHall_def nextUuid_def Let_def

lemma find_slugQuery_None: "(find (slugQuery None c) hs = None) = (c \<notin> hall_slug ` set hs)"
  by (auto simp: find_None_iff slugQuery_def)

lemma uniqueSlugLoop_spec:
  "\<exists>k\<ge>c. uniqueSlugLoop db ex b c cand = (if k = c then cand else slugCandidate b k)
       \<and> find (slugQuery ex (uniqueSlugLoop db ex b c cand)) (halls db) = None
       \<and> (k > c \<longrightarrow> find (slugQuery ex cand) (halls db) \<noteq> None)
       \<and> (\<forall>j. c < j \<and> j < k \<longrightarrow> find (slugQuery ex (slugCandidate b j)) (halls db) \<noteq> None)"
proof (induction db ex b c cand rule: uniqueSlugLoop.induct)
  case (1 db excludeId baseSlug counter candidate)
  note unf = uniqueSlugLoop.simps[of db excludeId baseSlug counter candidate]
  show ?case
  proof (cases "find (slugQuery excludeId candidate) (halls db)")
    case None
    then show ?thesis by (intro exI[of _ counter]) (auto simp add: unf)
  next
    case (Some h)
    from "1.IH"[OF Some] obtain k where k: "k \<ge> counter + 1"
      and res: "uniqueSlugLoop db excludeId baseSlug (counter + 1) (slugCandidate baseSlug (counter + 1))
                = (if k = counter + 1 then slugCandidate baseSlug (counter + 1) else slugCandidate baseSlug k)"
      and free: "find (slugQuery excludeId (uniqueSlugLoop db excludeId baseSlug (counter + 1)
                   (slugCandidate baseSlug (counter + 1)))) (halls db) = None"
      and hit: "k > counter + 1 \<longrightarrow> find (slugQuery excludeId (slugCandidate baseSlug (counter + 1))) (halls db) \<noteq> None"
      and taken: "\<forall>j. counter + 1 < j \<and> j < k \<longrightarrow> find (slugQuery excludeId (slugCandidate baseSlug j)) (halls db) \<noteq> None"
      by blast
    have eq: "uniqueSlugLoop db excludeId baseSlug counter candidate
              = uniqueSlugLoop db excludeId baseSlug (counter + 1) (slugCandidate baseSlug (counter + 1))"
      using Some by (simp add: unf)
    have r: "uniqueSlugLoop db excludeId baseSlug counter candidate = slugCandidate baseSlug k"
      using eq res by (simp split: if_splits)
    have t: "\<forall>j. counter < j \<and> j < k \<longrightarrow> find (slugQuery excludeId (slugCandidate baseSlug j)) (halls db) \<noteq> None"
    proof (intro allI impI)
      fix j assume j: "counter < j \<and> j < k"
      show "find (slugQuery excludeId (slugCandidate baseSlug j)) (halls db) \<noteq> None"
      proof (cases "j = counter + 1")
        case True
        with j hit show ?thesis by simp
      next
        case False
        with j taken show ?thesis by simp
      qed
    qed
    show ?thesis
      apply (rule exI[of _ k])
      using k r free eq Some t by simp
  qed
qed


lemma createHall_halls:
  "createHall pf now db p = (h, db') \<Longrightarrow> halls db' = halls db @ [h]"
  by (auto simp: createHall_def Let_def nextUuid_def split: option.splits prod.splits if_splits)

lemma createHall_slug:
  "createHall pf now db p = (h, db') \<Longrightarrow>
     hall_slug h = generateUniqueSlug pf now db (baseForSlug now p) None"
  by (auto simp: createHall_def Let_def nextUuid_def split: option.splits prod.splits if_splits)


lemma slugCandidate_neq_base: "slugCandidate b k \<noteq> b"
  by (simp add: slugCandidate_def)





section \<open>Ordering of query results\<close>

lemma mset_insertBy: "mset (insertBy le x xs) = add_mset x (mset xs)"
  by (induction xs) auto

lemma mset_orderBy: "mset (orderBy le xs) = mset xs"
  by (induction xs) (auto simp: orderBy_def mset_insertBy)

lemma set_orderBy: "set (orderBy le xs) = set xs"
  by (metis mset_orderBy set_mset_mset)

lemma length_orderBy: "length (orderBy le xs) = length xs"
  by (metis mset_orderBy size_mset)

lemma set_insertBy: "set (insertBy le x xs) = insert x (set xs)"
  by (induction xs) auto

lemma sorted_insertBy:
  assumes tot: "\<And>a b. le a b \<or> le b a" and tr: "\<And>a b c. le a b \<Longrightarrow> le b c \<Longrightarrow> le a c"
  shows "sorted_wrt le xs \<Longrightarrow> sorted_wrt le (insertBy le x xs)"
proof (induction xs)
  case Nil
  then show ?case by simp
next
  case (Cons y ys)
  show ?case
  proof (cases "le x y")
    case True
    with Cons.prems tr show ?thesis by auto
  next
    case False
    with tot have "le y x" by blast
    with Cons False show ?thesis by (auto simp: set_insertBy)
  qed
qed

lemma sorted_orderBy:
  assumes tot: "\<And>a b. le a b \<or> le b a" and tr: "\<And>a b c. le a b \<Longrightarrow> le b c \<Longrightarrow> le a c"
  shows "sorted_wrt le (orderBy le xs)"
proof (induction xs)
  case Nil
  then show ?case by (simp add: orderBy_def)
next
  case (Cons x xs)
  have "orderBy le (x # xs) = insertBy le x (orderBy le xs)" by (simp add: orderBy_def)
  with Cons sorted_insertBy[of le "orderBy le xs" x] tot tr show ?case by metis
qed

lemma sorted_orderBy_key:
  fixes key :: "'a \<Rightarrow> 'k::linorder"
  shows "sorted_wrt (\<lambda>a b. key a \<le> key b) (orderBy (\<lambda>a b. key a \<le> key b) xs)"
  by (rule sorted_orderBy) auto

section \<open>Listing halls by status\<close>

text \<open>
  C7. Every hall that \<open>listHalls\<close> returns under a status filter has that status; with
  the filter \<open>ACTIVE\<close> no draft or archived hall is returned.
\<close>

theorem listHalls_status_filter:
  assumes "lo_status options = Some st"
      and "h \<in> set (pg_data (listHalls pf db options))"
  shows "hall_status h = st"
proof -
  from assms(2) have "h \<in> set (filter (listHallsWhere pf options) (halls db))"
    by (auto simp: listHalls_def Let_def set_orderBy dest!: in_set_takeD in_set_dropD)
  with assms(1) show ?thesis by (simp add: listHallsWhere_def)
qed

theorem listHalls_status_filter_witness:
  "lo_status activeOnly = Some ACTIVE
   \<and> pg_data (listHalls testPlatform statusDb activeOnly)
       = [exampleHall (str ''h2'') (str ''beta'') ACTIVE 2]
   \<and> hall_status (exampleHall (str ''h2'') (str ''beta'') ACTIVE 2) = ACTIVE"
proof -
  have a: "lo_status activeOnly = Some ACTIVE" by (simp add: activeOnly_def)
  have b: "pg_data (listHalls testPlatform statusDb activeOnly)
           = [exampleHall (str ''h2'') (str ''beta'') ACTIVE 2]"
    by (simp add: listHalls_def listHallsWhere_def activeOnly_def statusDb_def emptyDb_def
        exampleHall_def orderBy_def Let_def)
  then have c: "exampleHall (str ''h2'') (str ''beta'') ACTIVE 2
                \<in> set (pg_data (listHalls testPlatform statusDb activeOnly))" by simp
  from a b listHalls_status_filter[OF a c] show ?thesis by simp
qed

section \<open>Order of the pricing lists\<close>

text \<open>
  C8 (as the code has it). Products are listed primary first and then by creation time,
  rates and addons by creation time, and blocked dates by their start date, each
  ascending.
\<close>

theorem pricing_lists_ordered:
  "sorted_wrt (\<lambda>a b. (hp_isPrimary a \<and> \<not> hp_isPrimary b) \<or>
                     (hp_isPrimary a = hp_isPrimary b \<and> hp_createdAt a \<le> hp_createdAt b))
     (listHallProducts db hallId isActive)
   \<and> sorted_wrt (\<lambda>a b. hpr_createdAt a \<le> hpr_createdAt b) (listHallProductRates db productId)
   \<and> sorted_wrt (\<lambda>a b. ha_createdAt a \<le> ha_createdAt b) (listHallAddons db hallId isActive')
   \<and> sorted_wrt (\<lambda>a b. hbd_startDate a \<le> hbd_startDate b)
       (listHallBlockedDates db hallId fromDate toDate)"
proof (intro conjI)
  show "sorted_wrt (\<lambda>a b. (hp_isPrimary a \<and> \<not> hp_isPrimary b) \<or>
                     (hp_isPrimary a = hp_isPrimary b \<and> hp_createdAt a \<le> hp_createdAt b))
     (listHallProducts db hallId isActive)"
    unfolding listHallProducts_def by (rule sorted_orderBy) auto
  show "sorted_wrt (\<lambda>a b. hpr_createdAt a \<le> hpr_createdAt b) (listHallProductRates db productId)"
    unfolding listHallProductRates_def by (rule sorted_orderBy_key)
  show "sorted_wrt (\<lambda>a b. ha_createdAt a \<le> ha_createdAt b) (listHallAddons db hallId isActive')"
    unfolding listHallAddons_def by (rule sorted_orderBy_key)
  show "sorted_wrt (\<lambda>a b. hbd_startDate a \<le> hbd_startDate b)
       (listHallBlockedDates db hallId fromDate toDate)"
    unfolding listHallBlockedDates_def by (rule sorted_orderBy_key)
qed

text \<open>
  C8 as stated fails for blocked dates: a block created first but starting later is
  listed second, so the list is not in creation order.
\<close>

theorem listHallBlockedDates_created_counterexample:
  "listHallBlockedDates blockedDb (str ''h1'') None None
     = [exampleBlockedDate (str ''b2'') (str ''h1'') 10 2,
        exampleBlockedDate (str ''b1'') (str ''h1'') 20 1]
   \<and> \<not> sorted_wrt (\<lambda>a b. hbd_createdAt a \<le> hbd_createdAt b)
         (listHallBlockedDates blockedDb (str ''h1'') None None)"
  by (simp add: listHallBlockedDates_def blockedDb_def emptyDb_def exampleBlockedDate_def
      orderBy_def)

section \<open>Updating a hall: owner role\<close>

lemma find_id_Some: "find (\<lambda>h. hall_id h = ident) hs = Some hall \<Longrightarrow> hall_id hall = ident"
  by (auto simp: find_Some_iff)

lemma whenDefined_simps [simp]:
  "whenDefined None f x = x" "whenDefined (Some a) f x = f a x"
  by (simp_all add: whenDefined_def)

lemma hall_id_whenDefined:
  "(\<And>a h. hall_id (f a h) = hall_id h) \<Longrightarrow> hall_id (whenDefined v f x) = hall_id x"
  by (simp add: whenDefined_def split: option.splits)

lemma hall_gerantId_whenDefined:
  "(\<And>a h. hall_gerantId (f a h) = hall_gerantId h) \<Longrightarrow>
     hall_gerantId (whenDefined v f x) = hall_gerantId x"
  by (simp add: whenDefined_def split: option.splits)

lemma mergeHallFields_id: "hall_id (mergeHallFields payload h) = hall_id h"
  by (simp add: mergeHallFields_def Let_def hall_id_whenDefined)

lemma mergeHallFields_gerantId:
  "hall_gerantId (mergeHallFields payload h) =
     (case u_gerantId payload of None \<Rightarrow> hall_gerantId h | Some g \<Rightarrow> g)"
  by (cases "u_gerantId payload")
     (simp_all add: mergeHallFields_def Let_def hall_gerantId_whenDefined)

lemma saveHall_facts:
  "hallUserRoles (snd (saveHall now loaded changed db)) = hallUserRoles db"
  "hall_id (fst (saveHall now loaded changed db)) = hall_id changed"
  "hall_gerantId (fst (saveHall now loaded changed db)) = hall_gerantId changed"
  by (simp_all add: saveHall_def Let_def)

lemma saveHall_gerantIds:
  assumes "find (\<lambda>h. hall_id h = ident) (halls db) = Some loaded"
      and "hall_id changed = ident" and "hall_gerantId changed = hall_gerantId loaded"
      and "distinct (map hall_id (halls db))"
  shows "map hall_gerantId (halls (snd (saveHall now loaded changed db))) = map hall_gerantId (halls db)"
proof -
  have "\<And>h. h \<in> set (halls db) \<Longrightarrow> hall_id h = ident \<Longrightarrow> h = loaded"
  proof -
    fix h assume h: "h \<in> set (halls db)" "hall_id h = ident"
    from assms(1) have l: "loaded \<in> set (halls db)" "hall_id loaded = ident"
      by (auto simp: find_Some_iff)
    from assms(4) h l show "h = loaded"
      by (metis distinct_map inj_onD)
  qed
  then show ?thesis
    using assms(2,3) by (auto simp: saveHall_def Let_def)
qed



text \<open>
  C10. An update whose payload has no \<open>gerantId\<close> leaves the role rows as they were
  and keeps the owner of the hall, whatever else it changes; over halls with distinct
  identifiers (the primary key) the owner column of the whole table is unchanged.
\<close>

theorem updateHall_without_gerantId_frame:
  assumes absent: "u_gerantId payload = None"
  shows "hallUserRoles (snd (updateHall pf now db ident payload)) = hallUserRoles db
    \<and> (\<forall>hall. find (\<lambda>h. hall_id h = ident) (halls db) = Some hall \<longrightarrow>
          (\<exists>saved. fst (updateHall pf now db ident payload) = Inr saved
             \<and> hall_gerantId saved = hall_gerantId hall)
          \<and> (distinct (map hall_id (halls db)) \<longrightarrow>
               map hall_gerantId (halls (snd (updateHall pf now db ident payload)))
               = map hall_gerantId (halls db)))"
proof (cases "find (\<lambda>h. hall_id h = ident) (halls db)")
  case None
  then show ?thesis by (simp add: updateHall_def)
next
  case (Some hall)
  have hid: "hall_id hall = ident" using Some by (rule find_id_Some)
  define h1 where "h1 = (case u_slug payload of
                       None \<Rightarrow> hall
                     | Some s \<Rightarrow>
                         if truthy s \<and> truthy (trim s) \<and> toLowerCase pf (trim s) \<noteq> hall_slug hall
                         then hall\<lparr>hall_slug := generateUniqueSlug pf now db s (Some (hall_id hall))\<rparr>
                         else hall)"
  define sv where "sv = saveHall now hall (mergeHallFields payload h1) db"
  have h1id: "hall_id h1 = ident" and h1g: "hall_gerantId h1 = hall_gerantId hall"
    using hid by (simp_all add: h1_def split: option.splits)
  have upd: "updateHall pf now db ident payload = (Inr (fst sv), snd sv)"
    using Some absent
    by (simp add: updateHall_def Let_def h1_def sv_def syncOwnerRole_def split: prod.splits)
  have mg: "hall_gerantId (mergeHallFields payload h1) = hall_gerantId hall"
    by (simp add: mergeHallFields_gerantId absent h1g)
  have a: "hallUserRoles (snd sv) = hallUserRoles db" by (simp add: sv_def saveHall_facts)
  have b: "hall_gerantId (fst sv) = hall_gerantId hall"
    by (simp add: sv_def saveHall_facts mg)
  have c: "map hall_gerantId (halls (snd sv)) = map hall_gerantId (halls db)"
    if "distinct (map hall_id (halls db))"
    unfolding sv_def using Some _ mg that
    by (rule saveHall_gerantIds) (simp add: mergeHallFields_id h1id)
  from a b c show ?thesis by (simp add: upd Some)
qed

lemma createHall_fields:
  "hall_status (fst (createHall pf now db p)) = (case c_status p of None \<Rightarrow> DRAFT | Some st \<Rightarrow> st)"
  "hall_gerantId (fst (createHall pf now db p)) = c_gerantId p"
  "hall_id (fst (createHall pf now db p)) = uuidGen pf (uuidCount db)"
  by (simp_all add: createHall_def Let_def nextUuid_def split: option.splits prod.splits)

lemma createHall_halls_snd:
  "halls (snd (createHall pf now db p)) = halls db @ [fst (createHall pf now db p)]"
  using createHall_halls[of pf now db p "fst (createHall pf now db p)" "snd (createHall pf now db p)"]
  by simp

lemma createHall_roles_snd:
  "hallUserRoles (snd (createHall pf now db p)) = hallUserRoles db @
     (case c_gerantId p of
        None \<Rightarrow> []
      | Some g \<Rightarrow> if truthy g
                  then [\<lparr> hur_id = uuidGen pf (Suc (uuidCount db)),
                          hur_hall = uuidGen pf (uuidCount db), hur_user = g, hur_role = OWNER,
                          hur_created_at = now \<rparr>]
                  else [])"
  by (simp add: createHall_def Let_def nextUuid_def split: option.splits prod.splits)

lemma ownedDb_halls: "halls ownedDb = [fst (createHall testPlatform 1 emptyDb ownedPayload)]"
  by (simp add: ownedDb_def createHall_halls_snd emptyDb_def)

lemma ownedDb_hall:
  "hall_id (fst (createHall testPlatform 1 emptyDb ownedPayload)) = str ''id-0''"
  "hall_gerantId (fst (createHall testPlatform 1 emptyDb ownedPayload)) = Some (str ''user-a'')"
  by (simp_all add: createHall_fields ownedPayload_def emptyDb_def testPlatform_def
      numberToString_def toRadix.simps digitChar_def str_def)

lemma ownedDb_found:
  "find (\<lambda>h. hall_id h = str ''id-0'') (halls ownedDb)
     = Some (fst (createHall testPlatform 1 emptyDb ownedPayload))"
  unfolding ownedDb_halls by (simp only: List.find.simps ownedDb_hall refl if_True)

theorem updateHall_without_gerantId_frame_witness:
  "u_gerantId examplePayload = None
   \<and> hallUserRoles (snd (updateHall testPlatform 2 ownedDb (str ''id-0'') examplePayload))
       = hallUserRoles ownedDb
   \<and> (\<exists>saved. fst (updateHall testPlatform 2 ownedDb (str ''id-0'') examplePayload) = Inr saved
          \<and> hall_gerantId saved = Some (str ''user-a''))
   \<and> map hall_gerantId (halls (snd (updateHall testPlatform 2 ownedDb (str ''id-0'') examplePayload)))
       = [Some (str ''user-a'')]"
proof -
  have absent: "u_gerantId examplePayload = None" by (simp add: examplePayload_def)
  have dist: "distinct (map hall_id (halls ownedDb))" by (simp only: ownedDb_halls list.map distinct_singleton)
  have g: "map hall_gerantId (halls ownedDb) = [Some (str ''user-a'')]"
    by (simp only: ownedDb_halls list.map ownedDb_hall)
  from updateHall_without_gerantId_frame[OF absent, of testPlatform 2 ownedDb "str ''id-0''"]
    absent ownedDb_found dist g ownedDb_hall(2)
  show ?thesis by simp
qed

section \<open>Approving a host application\<close>






section \<open>Slug form and lookup by slug\<close>

lemma dash_not_alnum: "\<not> isAlnum dash"
  by (simp add: isAlnum_def dash_def)

lemma wellDashed_collapseRuns: "wellDashed b (collapseRuns b s)"
  by (induction s arbitrary: b) (auto simp: dash_not_alnum)

lemma collapseRuns_wellDashed: "wellDashed b t \<Longrightarrow> collapseRuns b t = t"
  by (induction t arbitrary: b) (auto split: if_splits)

lemma wellDashed_weaken: "wellDashed b t \<Longrightarrow> wellDashed False t"
  by (cases t) (auto split: if_splits)

lemma wellDashed_tail: "wellDashed b (c # cs) \<Longrightarrow> wellDashed False cs"
  by (auto split: if_splits intro: wellDashed_weaken)

lemma wellDashed_suffix: "wellDashed b (xs @ ys) \<Longrightarrow> wellDashed False ys"
proof (induction xs arbitrary: b)
  case Nil
  then show ?case by (auto intro: wellDashed_weaken)
next
  case (Cons x xs)
  from Cons.prems have "wellDashed b (x # (xs @ ys))" by simp
  then have "wellDashed False (xs @ ys)" by (rule wellDashed_tail)
  then show ?case by (rule Cons.IH)
qed

lemma wellDashed_prefix: "wellDashed b (xs @ ys) \<Longrightarrow> wellDashed b xs"
  by (induction xs arbitrary: b) (auto split: if_splits)

lemma wellDashed_isSlugText: "wellDashed b t \<Longrightarrow> isSlugText t"
  by (induction t arbitrary: b) (auto simp: isSlugText_def split: if_splits)

lemma trimDashes_decomp:
  "\<exists>pre post. s = pre @ trimDashes s @ post"
proof -
  let ?P = "\<lambda>c. c = dash"
  let ?w = "dropWhile ?P s"
  have "s = takeWhile ?P s @ ?w" by simp
  moreover have "?w = rev (dropWhile ?P (rev ?w)) @ rev (takeWhile ?P (rev ?w))"
    by (metis rev_append rev_rev_ident takeWhile_dropWhile_id)
  ultimately have "s = takeWhile ?P s @ trimDashes s @ rev (takeWhile ?P (rev ?w))"
    by (simp add: trimDashes_def)
  then show ?thesis by blast
qed

lemma wellDashed_trimDashes: "wellDashed b s \<Longrightarrow> wellDashed False (trimDashes s)"
proof -
  assume a: "wellDashed b s"
  from trimDashes_decomp[of s] obtain pre post where s: "s = pre @ trimDashes s @ post" by blast
  from a s have "wellDashed b (pre @ (trimDashes s @ post))" by simp
  then have "wellDashed False (trimDashes s @ post)" by (rule wellDashed_suffix)
  then show ?thesis by (rule wellDashed_prefix)
qed

lemma trimDashes_ends:
  assumes "trimDashes s \<noteq> []"
  shows "hd (trimDashes s) \<noteq> dash" and "last (trimDashes s) \<noteq> dash"
proof -
  let ?P = "\<lambda>c. c = dash"
  let ?w = "dropWhile ?P s"
  let ?v = "dropWhile ?P (rev ?w)"
  from assms have v: "?v \<noteq> []" by (simp add: trimDashes_def)
  then have "\<not> ?P (hd ?v)" by (rule hd_dropWhile)
  then show "last (trimDashes s) \<noteq> dash" using v by (simp add: trimDashes_def last_rev)
  from v have w: "?w \<noteq> []" by (metis dropWhile.simps(1) rev_is_Nil_conv)
  then have hw: "\<not> ?P (hd ?w)" by (rule hd_dropWhile)
  have "rev ?w = takeWhile ?P (rev ?w) @ ?v" by simp
  then have "?w = rev ?v @ rev (takeWhile ?P (rev ?w))"
    by (metis rev_append rev_rev_ident)
  then have "hd ?w = hd (rev ?v)" using v by (metis hd_append2 rev_is_Nil_conv)
  with hw show "hd (trimDashes s) \<noteq> dash" by (simp add: trimDashes_def)
qed

lemma trimDashes_fixed:
  assumes "t \<noteq> [] \<longrightarrow> hd t \<noteq> dash \<and> last t \<noteq> dash"
  shows "trimDashes t = t"
proof (cases "t = []")
  case True
  then show ?thesis by (simp add: trimDashes_def)
next
  case False
  with assms have h: "hd t \<noteq> dash" and l: "last t \<noteq> dash" by simp_all
  from h False have a: "dropWhile (\<lambda>c. c = dash) t = t"
    by (simp add: dropWhile_eq_self_iff)
  from l False have b: "dropWhile (\<lambda>c. c = dash) (rev t) = rev t"
    by (simp add: dropWhile_eq_self_iff hd_rev)
  show ?thesis by (simp add: trimDashes_def a b)
qed

lemma slugForm_slugify: "slugForm (slugify pf s)"
  unfolding slugForm_def slugify_def
  using wellDashed_trimDashes[OF wellDashed_collapseRuns] trimDashes_ends
  by blast

lemma slugText_not_combining: "isSlugText t \<Longrightarrow> filter (\<lambda>c. \<not> isCombiningMark c) t = t"
  by (auto simp: isSlugText_def isCombiningMark_def isAlnum_def dash_def filter_id_conv)

lemma slugify_slugForm:
  assumes "keepsSlugText pf" and "slugForm t"
  shows "slugify pf t = t"
proof -
  from assms(2) have wd: "wellDashed False t" by (simp add: slugForm_def)
  then have st: "isSlugText t" by (rule wellDashed_isSlugText)
  with assms(1) have "toLowerCase pf t = t" "normalizeNFD pf t = t"
    by (simp_all add: keepsSlugText_def)
  then have "slugify pf t = trimDashes (collapseRuns False t)"
    by (simp add: slugify_def slugText_not_combining[OF st])
  also have "\<dots> = trimDashes t" by (simp add: collapseRuns_wellDashed[OF wd])
  also have "\<dots> = t" using assms(2) by (intro trimDashes_fixed) (simp add: slugForm_def)
  finally show ?thesis .
qed

lemma slugify_idem: "keepsSlugText pf \<Longrightarrow> slugify pf (slugify pf s) = slugify pf s"
  by (rule slugify_slugForm[OF _ slugForm_slugify])

lemma testPlatform_keeps: "keepsSlugText testPlatform"
proof -
  have "asciiLower t = t" if "isSlugText t" for t
    using that
    by (auto simp: asciiLower_def isSlugText_def isAlnum_def dash_def intro!: map_idI)
  then show ?thesis by (simp add: keepsSlugText_def testPlatform_def)
qed

text \<open>
  C9. \<open>getHallBySlug\<close> slugifies its argument before matching, and slugifying twice is
  slugifying once, so the lookup of \<open>s\<close> and of \<open>slugify s\<close> return the same result; two
  texts with the same slug (differing in case, diacritics or separators) are looked up
  alike, and \<open>getPublicHallDetail\<close> inherits this. The runtime's \<open>toLowerCase\<close> and
  \<open>normalize\<close> are taken to leave lower-case ASCII letters, digits and dashes unchanged.
\<close>

theorem getHallBySlug_slugified:
  assumes "keepsSlugText pf"
  shows "getHallBySlug pf db s = getHallBySlug pf db (slugify pf s)
     \<and> getPublicHallDetail pf db s = getPublicHallDetail pf db (slugify pf s)
     \<and> (slugify pf s' = slugify pf s \<longrightarrow> getHallBySlug pf db s' = getHallBySlug pf db s
           \<and> getPublicHallDetail pf db s' = getPublicHallDetail pf db s)"
  using slugify_idem[OF assms, of s]
  by (simp add: getHallBySlug_def getPublicHallDetail_def Let_def)

lemma find_by_distinct_key:
  "distinct (map f xs) \<Longrightarrow> x \<in> set xs \<Longrightarrow> find (\<lambda>y. f y = f x) xs = Some x"
  by (induction xs) (auto simp: image_iff)

theorem getHallBySlug_slugified_witness:
  "keepsSlugText testPlatform
   \<and> slugify testPlatform (str ''Lakeview  KINSHASA!'') = str ''lakeview-kinshasa''
   \<and> getHallBySlug testPlatform dbLakeview1 (str ''Lakeview  KINSHASA!'')
       = getHallBySlug testPlatform dbLakeview1 (str ''lakeview-kinshasa'')"
proof -
  have e: "slugify testPlatform (str ''Lakeview  KINSHASA!'') = str ''lakeview-kinshasa''"
    by (simp add: slug_eval)
  from getHallBySlug_slugified[OF testPlatform_keeps, of dbLakeview1 "str ''Lakeview  KINSHASA!''"]
    testPlatform_keeps e
  show ?thesis by simp
qed

subsection \<open>The slugs the service stores\<close>

text \<open>Creating and updating halls keep the slugs distinct and in slug form, so the two
  conditions on the database in the next theorem hold in every state the service
  produces.\<close>

lemma digitChar_alnum: "d < 36 \<Longrightarrow> isAlnum (digitChar d)"
  by (auto simp: digitChar_def isAlnum_def)

lemma toRadix_alnum: "2 \<le> b \<Longrightarrow> b \<le> 36 \<Longrightarrow> c \<in> set (toRadix b n) \<Longrightarrow> isAlnum c"
proof (induction b n arbitrary: c rule: toRadix.induct)
  case (1 b n)
  show ?case
  proof (cases "n < b")
    case True
    with "1.prems" show ?thesis
      by (auto simp: toRadix.simps[of b n] intro: digitChar_alnum)
  next
    case False
    with "1.prems"(1) have nb: "\<not> (b < 2 \<or> n < b)" by simp
    from "1.prems"(1,2) have "n mod b < 36"
      by (metis mod_less_divisor less_le_trans zero_less_numeral order_less_le_trans pos2)
    then have d: "isAlnum (digitChar (n mod b))" by (rule digitChar_alnum)
    from "1.prems"(3) nb have "c \<in> set (toRadix b (n div b)) \<or> c = digitChar (n mod b)"
      by (auto simp: toRadix.simps[of b n])
    with "1.IH"[OF nb "1.prems"(1,2)] d show ?thesis by blast
  qed
qed

lemma wellDashed_alnum: "(\<And>c. c \<in> set ds \<Longrightarrow> isAlnum c) \<Longrightarrow> wellDashed p ds"
  by (induction ds arbitrary: p) auto

lemma wellDashed_append_dash:
  assumes "wellDashed p xs" and "xs \<noteq> []" and "last xs \<noteq> dash"
      and "\<And>c. c \<in> set ds \<Longrightarrow> isAlnum c"
  shows "wellDashed p (xs @ dash # ds)"
  using assms(1,2,3)
proof (induction xs arbitrary: p)
  case Nil
  then show ?case by simp
next
  case (Cons x xs)
  show ?case
  proof (cases "xs = []")
    case True
    with Cons.prems wellDashed_alnum[of ds True, OF assms(4)] show ?thesis
      by (auto simp: dash_not_alnum split: if_splits)
  next
    case False
    with Cons.prems have l: "last xs \<noteq> dash" by simp
    show ?thesis
    proof (cases "isAlnum x")
      case True
      with Cons.prems have "wellDashed False xs" by simp
      from Cons.IH[OF this False l] True show ?thesis by simp
    next
      case nal: False
      with Cons.prems have "x = dash" "\<not> p" "wellDashed True xs" by simp_all
      with Cons.IH[OF \<open>wellDashed True xs\<close> False l] nal show ?thesis by simp
    qed
  qed
qed

lemma slugForm_fallback: "slugForm (generateFallbackBaseSlug now) \<and> generateFallbackBaseSlug now \<noteq> []"
proof -
  have al: "\<And>c. c \<in> set (toRadix 36 now) \<Longrightarrow> isAlnum c"
    by (rule toRadix_alnum[of 36]) simp_all
  have ne: "toRadix 36 now \<noteq> []" by (rule toRadix_nonempty)
  then have "last (toRadix 36 now) \<in> set (toRadix 36 now)" by simp
  then have "last (toRadix 36 now) \<noteq> dash" using al dash_not_alnum by metis
  moreover have "wellDashed True (toRadix 36 now)" by (rule wellDashed_alnum[OF al])
  ultimately show ?thesis
    using ne
    by (simp add: slugForm_def generateFallbackBaseSlug_def str_def isAlnum_def dash_def)
qed

lemma slugForm_candidate:
  assumes "slugForm b" and "b \<noteq> []"
  shows "slugForm (slugCandidate b k)"
proof -
  have al: "\<And>c. c \<in> set (numberToString k) \<Longrightarrow> isAlnum c"
    unfolding numberToString_def by (rule toRadix_alnum[of 10]) simp_all
  have ne: "numberToString k \<noteq> []" by (simp add: numberToString_def toRadix_nonempty)
  then have "last (numberToString k) \<in> set (numberToString k)" by simp
  then have l: "last (numberToString k) \<noteq> dash" using al dash_not_alnum by metis
  from assms have "wellDashed False (b @ dash # numberToString k)"
    by (intro wellDashed_append_dash al) (simp_all add: slugForm_def)
  with assms ne l show ?thesis
    by (simp add: slugForm_def slugCandidate_def)
qed

lemma slugForm_baseSlugOf: "slugForm (baseSlugOf pf now base) \<and> baseSlugOf pf now base \<noteq> []"
  using slugForm_fallback[of now] slugForm_slugify[of pf base]
  by (simp add: baseSlugOf_def Let_def)

lemma slugForm_generateUniqueSlug: "slugForm (generateUniqueSlug pf now db base excludeId)"
proof -
  let ?b = "baseSlugOf pf now base"
  from uniqueSlugLoop_spec[of 1 db excludeId ?b ?b]
  obtain k where "uniqueSlugLoop db excludeId ?b 1 ?b = (if k = 1 then ?b else slugCandidate ?b k)"
    by blast
  then show ?thesis
    using slugForm_baseSlugOf[of pf now base] slugForm_candidate[of ?b k]
    by (simp add: generateUniqueSlug_def Let_def)
qed

lemma generateUniqueSlug_free:
  "find (slugQuery excludeId (generateUniqueSlug pf now db base excludeId)) (halls db) = None"
  using uniqueSlugLoop_spec[of 1 db excludeId "baseSlugOf pf now base" "baseSlugOf pf now base"]
  by (auto simp: generateUniqueSlug_def Let_def)

lemma distinct_map_update:
  assumes "distinct (map g xs)" and "distinct (map f xs)"
      and "\<And>h. h \<in> set xs \<Longrightarrow> g h \<noteq> i \<Longrightarrow> f h \<noteq> f s"
  shows "distinct (map f (map (\<lambda>h. if g h = i then s else h) xs))"
  using assms
proof (induction xs)
  case Nil
  then show ?case by simp
next
  case (Cons x xs)
  from Cons.prems have gx: "g x \<notin> g ` set xs" and fx: "f x \<notin> f ` set xs"
    and dg: "distinct (map g xs)" and df: "distinct (map f xs)" by simp_all
  have IH: "distinct (map f (map (\<lambda>h. if g h = i then s else h) xs))"
    using Cons.IH[OF dg df] Cons.prems(3) by simp
  show ?case
  proof (cases "g x = i")
    case True
    with gx have "\<And>h. h \<in> set xs \<Longrightarrow> g h \<noteq> i" by (metis imageI)
    then have id: "map (\<lambda>h. if g h = i then s else h) xs = xs" by (simp add: map_idI)
    from \<open>\<And>h. h \<in> set xs \<Longrightarrow> g h \<noteq> i\<close> Cons.prems(3) have "f s \<notin> f ` set xs" by force
    with True df show ?thesis by (simp add: id)
  next
    case False
    from Cons.prems(3)[of x] False have "f x \<noteq> f s" by simp
    with fx have nin: "f x \<notin> f ` set (map (\<lambda>h. if g h = i then s else h) xs)" by auto
    have "distinct (f x # map f (map (\<lambda>h. if g h = i then s else h) xs))"
      using nin IH by (simp only: distinct.simps set_map) simp
    with False show ?thesis by simp
  qed
qed

lemma hall_slug_whenDefined:
  "(\<And>a h. hall_slug (f a h) = hall_slug h) \<Longrightarrow> hall_slug (whenDefined v f x) = hall_slug x"
  by (simp add: whenDefined_def split: option.splits)

lemma mergeHallFields_slug: "hall_slug (mergeHallFields payload h) = hall_slug h"
  by (simp add: mergeHallFields_def Let_def hall_slug_whenDefined)

lemma saveHall_slug:
  "hall_slug (fst (saveHall now loaded changed db)) = hall_slug changed"
  "halls (snd (saveHall now loaded changed db))
     = map (\<lambda>h. if hall_id h = hall_id changed then fst (saveHall now loaded changed db) else h) (halls db)"
  by (simp_all add: saveHall_def Let_def)

lemma syncOwnerRole_halls:
  "halls (syncOwnerRole pf now payload previous hall saved db) = halls db"
  by (simp add: syncOwnerRole_def Let_def nextUuid_def split: option.splits)

lemma createHall_keeps_slug_invariants:
  assumes "distinct (map hall_slug (halls db))" and "slugsInForm db"
  shows "distinct (map hall_slug (halls (snd (createHall pf now db payload))))
       \<and> slugsInForm (snd (createHall pf now db payload))"
proof -
  let ?h = "fst (createHall pf now db payload)"
  have hs: "halls (snd (createHall pf now db payload)) = halls db @ [?h]"
    by (rule createHall_halls_snd)
  have sl: "hall_slug ?h = generateUniqueSlug pf now db (baseForSlug now payload) None"
    by (rule createHall_slug[of pf now db payload ?h "snd (createHall pf now db payload)"]) simp
  have "hall_slug ?h \<notin> hall_slug ` set (halls db)"
    using generateUniqueSlug_free[of None pf now db "baseForSlug now payload"]
    by (simp add: sl find_slugQuery_None)
  moreover have "slugForm (hall_slug ?h)" by (simp add: sl slugForm_generateUniqueSlug)
  ultimately show ?thesis using assms by (auto simp: hs slugsInForm_def)
qed

lemma updateHall_keeps_slug_invariants:
  assumes ds: "distinct (map hall_slug (halls db))" and di: "distinct (map hall_id (halls db))"
      and sf: "slugsInForm db"
  shows "distinct (map hall_slug (halls (snd (updateHall pf now db ident payload))))
       \<and> slugsInForm (snd (updateHall pf now db ident payload))"
proof (cases "find (\<lambda>h. hall_id h = ident) (halls db)")
  case None
  with ds sf show ?thesis by (simp add: updateHall_def)
next
  case (Some hall)
  then have hin: "hall \<in> set (halls db)" and hid: "hall_id hall = ident"
    by (auto simp: find_Some_iff)
  define h1 where "h1 = (case u_slug payload of
                       None \<Rightarrow> hall
                     | Some s \<Rightarrow>
                         if truthy s \<and> truthy (trim s) \<and> toLowerCase pf (trim s) \<noteq> hall_slug hall
                         then hall\<lparr>hall_slug := generateUniqueSlug pf now db s (Some (hall_id hall))\<rparr>
                         else hall)"
  define sv where "sv = saveHall now hall (mergeHallFields payload h1) db"
  have h1id: "hall_id h1 = ident" using hid by (simp add: h1_def split: option.splits)
  have upd: "halls (snd (updateHall pf now db ident payload)) = halls (snd sv)"
    using Some by (simp add: updateHall_def Let_def h1_def sv_def case_prod_beta syncOwnerRole_halls)
  have hs: "halls (snd sv) = map (\<lambda>h. if hall_id h = ident then fst sv else h) (halls db)"
    by (simp add: sv_def saveHall_slug(2) mergeHallFields_id h1id)
  have svs: "hall_slug (fst sv) = hall_slug h1"
    by (simp add: sv_def saveHall_slug(1) mergeHallFields_slug)
  have cases: "hall_slug h1 = hall_slug hall
      \<or> (\<exists>s. hall_slug h1 = generateUniqueSlug pf now db s (Some ident))"
    using hid by (auto simp: h1_def split: option.splits)
  have form: "slugForm (hall_slug h1)"
    using cases sf hin slugForm_generateUniqueSlug by (auto simp: slugsInForm_def)
  have other: "hall_slug h \<noteq> hall_slug h1" if "h \<in> set (halls db)" "hall_id h \<noteq> ident" for h
  proof
    assume eq: "hall_slug h = hall_slug h1"
    from cases show False
    proof
      assume "hall_slug h1 = hall_slug hall"
      with eq ds that(1) hin have "h = hall" by (metis distinct_map inj_onD)
      with that(2) hid show False by simp
    next
      assume "\<exists>s. hall_slug h1 = generateUniqueSlug pf now db s (Some ident)"
      then obtain s where s: "hall_slug h1 = generateUniqueSlug pf now db s (Some ident)" by blast
      from generateUniqueSlug_free[of "Some ident" pf now db s] that(1)
      have "\<not> slugQuery (Some ident) (hall_slug h1) h" by (simp add: s find_None_iff)
      with eq that(2) show False by (simp add: slugQuery_def split: if_splits)
    qed
  qed
  have d: "distinct (map hall_slug (halls (snd sv)))"
    unfolding hs using di ds other by (intro distinct_map_update) (simp_all add: svs)
  have f: "slugsInForm (snd sv)"
    using sf form by (auto simp: slugsInForm_def hs svs)
  from d f show ?thesis by (simp add: upd slugsInForm_def)
qed

lemma slugsInForm_fixed:
  "keepsSlugText pf \<Longrightarrow> slugsInForm db \<Longrightarrow> h \<in> set (halls db) \<Longrightarrow>
     slugify pf (hall_slug h) = hall_slug h"
  by (simp add: slugsInForm_def slugify_slugForm)

text \<open>
  C6. For the slug of a hall that is not \<open>ACTIVE\<close>, \<open>getPublicHallDetail\<close> raises
  \<open>NotFound\<close> and leaves the database as it was. Slugs are unique (the unique index of
  the table) and stored in slug form, as \<open>generateUniqueSlug\<close> produces them.
\<close>

theorem getPublicHallDetail_hides_inactive:
  assumes "h \<in> set (halls db)"
      and "hall_status h \<noteq> ACTIVE"
      and "distinct (map hall_slug (halls db))"
      and "slugify pf (hall_slug h) = hall_slug h"
  shows "getPublicHallDetail pf db (hall_slug h) = (Inl (NotFoundError ''Hall not found''), db)"
  using assms find_by_distinct_key[of hall_slug "halls db" h]
  by (simp add: getPublicHallDetail_def getHallBySlug_def Let_def)

theorem getPublicHallDetail_hides_inactive_witness:
  "hall_status (fst (createHall testPlatform 1 emptyDb lakeviewPayload)) = DRAFT
   \<and> hall_slug (fst (createHall testPlatform 1 emptyDb lakeviewPayload)) = str ''lakeview-kinshasa''
   \<and> getPublicHallDetail testPlatform dbLakeview1 (str ''lakeview-kinshasa'')
       = (Inl (NotFoundError ''Hall not found''), dbLakeview1)"
proof -
  let ?h = "fst (createHall testPlatform 1 emptyDb lakeviewPayload)"
  have hs: "halls dbLakeview1 = [?h]"
    using createHall_halls[of testPlatform 1 emptyDb lakeviewPayload ?h dbLakeview1]
    by (simp add: dbLakeview1_def emptyDb_def)
  have st: "hall_status ?h = DRAFT"
    by (simp add: createHall_def Let_def nextUuid_def lakeviewPayload_def case_prod_beta)
  have sl: "hall_slug ?h = str ''lakeview-kinshasa''"
    by (simp add: slug_eval lakeviewPayload_def emptyDb_def)
  have a: "?h \<in> set (halls dbLakeview1)" by (simp only: hs list.set insertI1)
  have b: "hall_status ?h \<noteq> ACTIVE" by (simp only: st) simp
  have c: "distinct (map hall_slug (halls dbLakeview1))"
    by (simp only: hs list.map distinct_singleton)
  have d: "slugify testPlatform (hall_slug ?h) = hall_slug ?h"
    unfolding sl by (simp add: slug_eval)
  from getPublicHallDetail_hides_inactive[OF a b c d] st sl show ?thesis by simp
qed

section \<open>Primary media tags\<close>




lemma findOrCreate_frame:
  "mediaRows (snd (findOrCreateTagTypeByName pf now db name)) = mediaRows db"
  "mediaTags (snd (findOrCreateTagTypeByName pf now db name)) = mediaTags db"
  by (simp_all add: findOrCreateTagTypeByName_def Let_def nextUuid_def split: option.splits)


lemma unset_frame:
  "mediaRows (unsetExistingPrimaryForHallAndTagType db hallId tagTypeId) = mediaRows db"
  "mediaTagTypes (unsetExistingPrimaryForHallAndTagType db hallId tagTypeId) = mediaTagTypes db"
  by (simp_all add: unsetExistingPrimaryForHallAndTagType_def Let_def)





lemma tagMediaByName_unfold:
  assumes "find (\<lambda>m. m_id m = tm_mediaId options) (mediaRows db) = Some media"
  shows "tagMediaByName pf now db options =
     (let tagType = fst (findOrCreateTagTypeByName pf now db (tm_tagName options));
          db2 = afterUnset pf now db options media;
          isPrimary = (case tm_isPrimary options of None \<Rightarrow> False | Some b \<Rightarrow> b)
      in if \<exists>mt \<in> set (mediaTags db2). mt_mediaId mt = m_id media \<and> mt_tagTypeId mt = mtt_id tagType
         then (Inl (QueryFailedError ''duplicate key value violates unique constraint uq_media_tag''), db2)
         else (Inr \<lparr> mtd_id = uuidGen pf (uuidCount db2), mtd_mediaId = m_id media,
                     mtd_tagTypeId = mtt_id tagType, mtd_tagName = mtt_name tagType,
                     mtd_isPrimary = isPrimary, mtd_createdAt = now \<rparr>,
               db2\<lparr>uuidCount := Suc (uuidCount db2),
                    mediaTags := mediaTags db2 @
                      [\<lparr> mt_id = uuidGen pf (uuidCount db2), mt_mediaId = m_id media,
                         mt_tagTypeId = mtt_id tagType, mt_isPrimary = isPrimary,
                         mt_createdAt = now \<rparr>]\<rparr>))"
  using assms
  by (simp add: tagMediaByName_def afterUnset_def Let_def nextUuid_def case_prod_beta)

lemma afterUnset_frame:
  "mediaRows (afterUnset pf now db options media) = mediaRows db"
  "mediaTagTypes (afterUnset pf now db options media)
     = mediaTagTypes (snd (findOrCreateTagTypeByName pf now db (tm_tagName options)))"
  by (simp_all add: afterUnset_def Let_def unset_frame findOrCreate_frame)




lemma tagMediaByName_mediaRows:
  "mediaRows (snd (tagMediaByName pf now db options)) = mediaRows db"
proof (cases "find (\<lambda>m. m_id m = tm_mediaId options) (mediaRows db)")
  case None
  then show ?thesis by (simp add: tagMediaByName_def Let_def)
next
  case (Some media)
  show ?thesis
    by (simp add: tagMediaByName_unfold[OF Some] Let_def afterUnset_frame)
qed




subsection \<open>Examples\<close>





section \<open>Public search by price\<close>




















end
